theory Spec2Isabelle
  imports Complex_Main
begin

section \<open>JavaScript values and numbers\<close>

text \<open>
  A JavaScript number is modelled as a real number or \<open>NaN\<close>. Rounding of IEEE doubles,
  the infinities and the sign of zero are left out: every constant of the program
  (50, 400, 500, 300, 5, 20, 0.8, 0.4, 0.5, 1024, 255) is read as the exact real.
\<close>

datatype jsnum = NaN | Fin real

text \<open>
  The values a field of a catalog record, or an entry of the \<open>temperatures\<close> table, can
  hold: \<open>undefined\<close> (the field is absent), \<open>null\<close>, a number, or an object or
  function (what a lookup of an inherited key such as \<open>constructor\<close> returns).
\<close>

datatype jsval = JUndefined | JNull | JNumber jsnum | JObject

text \<open>The conversion JavaScript applies before subtraction, division and comparison.\<close>

fun ToNumber :: "jsval \<Rightarrow> jsnum" where
  "ToNumber JUndefined = NaN"
| "ToNumber JNull = Fin 0"
| "ToNumber (JNumber n) = n"
| "ToNumber JObject = NaN"

text \<open>The comparisons \<open>a > b\<close> and \<open>a <= b\<close>: false as soon as one side is \<open>NaN\<close>.\<close>

fun js_gt :: "jsnum \<Rightarrow> jsnum \<Rightarrow> bool" where
  "js_gt (Fin a) (Fin b) = (a > b)"
| "js_gt _ _ = False"

fun js_le :: "jsnum \<Rightarrow> jsnum \<Rightarrow> bool" where
  "js_le (Fin a) (Fin b) = (a \<le> b)"
| "js_le _ _ = False"

fun js_sub :: "jsnum \<Rightarrow> jsnum \<Rightarrow> jsnum" where
  "js_sub (Fin a) (Fin b) = Fin (a - b)"
| "js_sub _ _ = NaN"

text \<open>
  Division. JavaScript returns an infinity or \<open>NaN\<close> for a zero divisor; the model has no
  infinities and returns \<open>NaN\<close> there. The only divisor of the program is \<open>400 - 50\<close>.
\<close>

fun js_div :: "jsnum \<Rightarrow> jsnum \<Rightarrow> jsnum" where
  "js_div (Fin a) (Fin b) = (if b = 0 then NaN else Fin (a / b))"
| "js_div _ _ = NaN"

text \<open>\<open>Math.max\<close> and \<open>Math.min\<close> return \<open>NaN\<close> when an argument is \<open>NaN\<close>.\<close>

fun Math_max :: "jsnum \<Rightarrow> jsnum \<Rightarrow> jsnum" where
  "Math_max (Fin a) (Fin b) = Fin (max a b)"
| "Math_max _ _ = NaN"

fun Math_min :: "jsnum \<Rightarrow> jsnum \<Rightarrow> jsnum" where
  "Math_min (Fin a) (Fin b) = Fin (min a b)"
| "Math_min _ _ = NaN"

section \<open>The static tables\<close>

definition textures_mercury :: string where
  "textures_mercury = ''exo-query/textures/2k_mercury.jpg''"

definition textures_venus :: string where
  "textures_venus = ''exo-query/textures/2k_venus_surface.jpg''"

definition textures_mars :: string where
  "textures_mars = ''exo-query/textures/2k_mars.jpg''"

definition textures_jupiter :: string where
  "textures_jupiter = ''exo-query/textures/2k_jupiter.jpg''"

definition textures_saturn :: string where
  "textures_saturn = ''exo-query/textures/2k_saturn.jpg''"

definition textures_uranus :: string where
  "textures_uranus = ''exo-query/textures/2k_uranus.jpg''"

definition textures_neptune :: string where
  "textures_neptune = ''exo-query/textures/2k_neptune.jpg''"

text \<open>The own properties of the object literal \<open>temperatures\<close>, in source order.\<close>

definition temperatures_table :: "(string \<times> jsval) list" where
  "temperatures_table =
    [(''terre'', JNumber (Fin 288)),
     (''mars'', JNumber (Fin 210)),
     (''jupiter'', JNumber (Fin 165)),
     (''saturne'', JNumber (Fin 134)),
     (''uranus'', JNumber (Fin 76)),
     (''neptune'', JNumber (Fin 72)),
     (''pluton'', JNumber (Fin 44)),
     (''haumea'', JNumber (Fin 73)),
     (''eris'', JNumber (Fin 43)),
     (''null'', JNull),
     (''eugenia'', JNumber (Fin 90)),
     (''sylvia'', JNumber (Fin 90)),
     (''orcus'', JNumber (Fin 70)),
     (''ida'', JNumber (Fin 200)),
     (''kleopatra'', JNumber (Fin 220)),
     (''quaoar'', JNumber (Fin 70)),
     (''makemake'', JNumber (Fin 75))]"

text \<open>
  The keys every object literal inherits from \<open>Object.prototype\<close>: a lookup of one of
  them returns a function or an object, not \<open>undefined\<close>.
\<close>

definition inherited_keys :: "string list" where
  "inherited_keys =
    [''constructor'', ''hasOwnProperty'', ''isPrototypeOf'', ''propertyIsEnumerable'',
     ''toLocaleString'', ''toString'', ''valueOf'', ''__proto__'',
     ''__defineGetter__'', ''__defineSetter__'', ''__lookupGetter__'', ''__lookupSetter__'']"

text \<open>The property read \<open>temperatures[key]\<close>.\<close>

definition temperatures :: "string \<Rightarrow> jsval" where
  "temperatures key =
    (case map_of temperatures_table key of
       Some v \<Rightarrow> v
     | None \<Rightarrow> if key \<in> set inherited_keys then JObject else JUndefined)"

section \<open>The catalog record\<close>

record AroundPlanet =
  planet :: "string option"

text \<open>
  \<open>aroundPlanet\<close> is \<open>None\<close> when the field is absent or \<open>null\<close>; so is \<open>planet\<close>.
\<close>

record CelestialBody =
  meanRadius :: jsval
  avgTemp :: jsval
  bodyType :: string
  density :: jsval
  axialTilt :: jsval
  aroundPlanet :: "AroundPlanet option"

section \<open>Asset selection\<close>

definition selectPlanetTexture :: "CelestialBody \<Rightarrow> string" where
  "selectPlanetTexture exoplanet =
    (if bodyType exoplanet = ''Gas Giant'' then
       (if js_gt (ToNumber (avgTemp exoplanet)) (Fin 500) then textures_jupiter
        else textures_saturn)
     else if bodyType exoplanet = ''Rocky'' then
       (if js_gt (ToNumber (avgTemp exoplanet)) (Fin 300) then textures_venus
        else textures_mars)
     else textures_mercury)"

section \<open>Colours\<close>

record Color =
  color_r :: real
  color_g :: real
  color_b :: real

text \<open>
  \<open>THREE.Color\<close> belongs to the three.js library, not to this repository. The operations
  the program calls are written after the library's \<open>Color.js\<close> and \<open>MathUtils.js\<close>:
  \<open>setHSL\<close> takes the hue as a fraction of the full circle, reduces it modulo 1 and
  converts with \<open>hue2rgb\<close>.
\<close>

text \<open>The remainder \<open>n % m\<close> of JavaScript: it has the sign of the dividend.\<close>

definition js_rem :: "real \<Rightarrow> real \<Rightarrow> real" where
  "js_rem n m =
    (let q = n / m; t = (if 0 \<le> q then \<lfloor>q\<rfloor> else \<lceil>q\<rceil>) in n - m * of_int t)"

definition euclideanModulo :: "real \<Rightarrow> real \<Rightarrow> real" where
  "euclideanModulo n m = js_rem (js_rem n m + m) m"

definition clamp :: "real \<Rightarrow> real \<Rightarrow> real \<Rightarrow> real" where
  "clamp v lo hi = max lo (min hi v)"

text \<open>
  \<open>hue2rgb\<close>: with \<open>t = NaN\<close> every comparison is false and the last \<open>return p\<close> is
  reached.
\<close>

fun hue2rgb :: "real \<Rightarrow> real \<Rightarrow> jsnum \<Rightarrow> real" where
  "hue2rgb p q NaN = p"
| "hue2rgb p q (Fin t0) =
    (let t1 = (if t0 < 0 then t0 + 1 else t0);
         t = (if t1 > 1 then t1 - 1 else t1)
     in if t < 1 / 6 then p + (q - p) * 6 * t
        else if t < 1 / 2 then q
        else if t < 2 / 3 then p + (q - p) * 6 * (2 / 3 - t)
        else p)"

fun js_mod1 :: "jsnum \<Rightarrow> jsnum" where
  "js_mod1 NaN = NaN"
| "js_mod1 (Fin h) = Fin (euclideanModulo h 1)"

fun js_add_real :: "jsnum \<Rightarrow> real \<Rightarrow> jsnum" where
  "js_add_real NaN d = NaN"
| "js_add_real (Fin h) d = Fin (h + d)"

definition setHSL :: "jsnum \<Rightarrow> real \<Rightarrow> real \<Rightarrow> Color" where
  "setHSL h0 s0 l0 =
    (let h = js_mod1 h0; s = clamp s0 0 1; l = clamp l0 0 1
     in if s = 0 then \<lparr>color_r = l, color_g = l, color_b = l\<rparr>
        else
          (let p = (if l \<le> 0.5 then l * (1 + s) else l + s - l * s);
               q = 2 * l - p
           in \<lparr>color_r = hue2rgb q p (js_add_real h (1 / 3)),
               color_g = hue2rgb q p h,
               color_b = hue2rgb q p (js_add_real h (- (1 / 3)))\<rparr>))"

definition multiplyScalar :: "Color \<Rightarrow> real \<Rightarrow> Color" where
  "multiplyScalar c s =
    \<lparr>color_r = color_r c * s, color_g = color_g c * s, color_b = color_b c * s\<rparr>"

definition multiply :: "Color \<Rightarrow> Color \<Rightarrow> Color" where
  "multiply c d =
    \<lparr>color_r = color_r c * color_r d, color_g = color_g c * color_g d,
     color_b = color_b c * color_b d\<rparr>"

section \<open>Temperature to colour\<close>

definition minTemp :: real where "minTemp = 50"

definition maxTemp :: real where "maxTemp = 400"

definition normalizedTemp :: "jsval \<Rightarrow> jsnum" where
  "normalizedTemp t =
    Math_min
      (Math_max (js_div (js_sub (ToNumber t) (Fin minTemp)) (js_sub (Fin maxTemp) (Fin minTemp)))
         (Fin 0))
      (Fin 1)"

text \<open>The hue handed to \<open>setHSL\<close>, as a fraction of the full circle.\<close>

definition hueOf :: "jsval \<Rightarrow> jsnum" where
  "hueOf t = js_sub (Fin 1) (normalizedTemp t)"

definition temperatureToColor :: "jsval \<Rightarrow> Color" where
  "temperatureToColor t = setHSL (hueOf t) 1 0.5"

section \<open>The canvas and the pixel loop\<close>

definition textureSize :: nat where "textureSize = 1024"

definition polarEffect :: real where "polarEffect = 0.4"

text \<open>
  A store into a \<open>Uint8ClampedArray\<close>: clamp to 0..255 and round to the nearest integer,
  a tie to the even one. The values stored here are never \<open>NaN\<close>.
\<close>

definition ToUint8Clamp :: "real \<Rightarrow> nat" where
  "ToUint8Clamp v =
    (if v \<le> 0 then 0
     else if 255 \<le> v then 255
     else
       (let f = \<lfloor>v\<rfloor>
        in if of_int f + 0.5 < v then nat (f + 1)
           else if v < of_int f + 0.5 then nat f
           else if even f then nat f
           else nat (f + 1)))"

text \<open>
  The image data is the array \<open>textureData.data\<close>: four bytes (red, green, blue, alpha)
  per pixel, row by row. A store outside the array is ignored, as \<open>list_update\<close> does.
\<close>

definition pixelIndex :: "nat \<Rightarrow> nat \<Rightarrow> nat" where
  "pixelIndex y x = (y * textureSize + x) * 4"

text \<open>The geometric test of the inner loop.\<close>

definition inPolarBand :: "nat \<Rightarrow> nat \<Rightarrow> bool" where
  "inPolarBand y x =
    (let nx = real x / real textureSize - 0.5;
         ny = real y / real textureSize - 0.5
     in \<bar>ny\<bar> > polarEffect \<and> \<bar>nx\<bar> < 0.5)"

text \<open>First half of the loop body: the ice cap.\<close>

definition iceCap :: "jsval \<Rightarrow> nat \<Rightarrow> nat \<Rightarrow> nat list \<Rightarrow> nat list" where
  "iceCap tilt y x data =
    (if inPolarBand y x then
       (if js_gt (ToNumber tilt) (Fin 20) then
          (let index = pixelIndex y x
           in data[index := 255, index + 1 := 255, index + 2 := 255])
        else data)
     else data)"

text \<open>Second half of the loop body: the pixel is multiplied by the base colour.\<close>

definition tintPixel :: "Color \<Rightarrow> nat \<Rightarrow> nat \<Rightarrow> nat list \<Rightarrow> nat list" where
  "tintPixel baseColor y x data =
    (let index = pixelIndex y x;
         color = \<lparr>color_r = real (data ! index) / 255,
                  color_g = real (data ! (index + 1)) / 255,
                  color_b = real (data ! (index + 2)) / 255\<rparr>;
         color' = multiply color baseColor
     in data[index := ToUint8Clamp (color_r color' * 255),
             index + 1 := ToUint8Clamp (color_g color' * 255),
             index + 2 := ToUint8Clamp (color_b color' * 255)])"

function loopX :: "jsval \<Rightarrow> Color \<Rightarrow> nat \<Rightarrow> nat \<Rightarrow> nat list \<Rightarrow> nat list" where
  "loopX tilt baseColor y x data =
    (if x < textureSize
     then loopX tilt baseColor y (x + 1) (tintPixel baseColor y x (iceCap tilt y x data))
     else data)"
  by pat_completeness auto
termination
  by (relation "measure (\<lambda>(tilt, baseColor, y, x, data). textureSize - x)") auto

declare loopX.simps [simp del]

function loopY :: "jsval \<Rightarrow> Color \<Rightarrow> nat \<Rightarrow> nat list \<Rightarrow> nat list" where
  "loopY tilt baseColor y data =
    (if y < textureSize
     then loopY tilt baseColor (y + 1) (loopX tilt baseColor y 0 data)
     else data)"
  by pat_completeness auto
termination
  by (relation "measure (\<lambda>(tilt, baseColor, y, data). textureSize - y)") auto

declare loopY.simps [simp del]

section \<open>The texture synthesizer\<close>

text \<open>
  The environment of \<open>generatePlanetTexture\<close>:
  \<^item> \<open>load n path\<close> is what the \<open>n\<close>-th call of \<open>textureLoader.load\<close> does with \<open>path\<close>:
    it calls the success callback with an image or the error callback with an error
    event. The loader is taken to call exactly one of the two.
  \<^item> \<open>draw img\<close> is the array \<open>getImageData\<close> returns after \<open>drawImage\<close> has scaled
    \<open>img\<close> to the canvas.
  The canvas operations are taken not to throw. Console output is left out.
\<close>

type_synonym ErrorEvent = string

datatype 'img LoadResult = Loaded 'img | Failed ErrorEvent

datatype 'img TextureImage = ImageOf 'img | CanvasOf "nat list"

datatype ColorSpace = LinearSRGBColorSpace | SRGBColorSpace

text \<open>
  A texture: its \<open>image\<close>, and its \<open>encoding\<close>, which is \<open>None\<close> as long as the program has not
  assigned it.
\<close>

record 'img Texture =
  tex_image :: "'img TextureImage"
  tex_encoding :: "ColorSpace option"

datatype 'a Promise = Resolved 'a | Rejected ErrorEvent

text \<open>
  The variables of one call: \<open>exoplanet\<close> is the caller's object, the others are the
  local variables the destructuring \<open>let\<close> declares.
\<close>

record Frame =
  exoplanet :: CelestialBody
  v_meanRadius :: jsval
  v_avgTemp :: jsval
  v_bodyType :: string
  v_density :: jsval
  v_axialTilt :: jsval
  v_aroundPlanet :: "AroundPlanet option"

definition destructure :: "CelestialBody \<Rightarrow> Frame" where
  "destructure b =
    \<lparr>exoplanet = b, v_meanRadius = meanRadius b, v_avgTemp = avgTemp b,
     v_bodyType = bodyType b, v_density = density b, v_axialTilt = axialTilt b,
     v_aroundPlanet = aroundPlanet b\<rparr>"

text \<open>
  \<open>if (aroundPlanet && aroundPlanet.planet) avgTemp = temperatures[aroundPlanet.planet]\<close>:
  the empty string is falsy.
\<close>

definition overrideTemp :: "Frame \<Rightarrow> Frame" where
  "overrideTemp f =
    (case v_aroundPlanet f of
       None \<Rightarrow> f
     | Some ap \<Rightarrow>
         (case planet ap of
            None \<Rightarrow> f
          | Some key \<Rightarrow> if key = [] then f else f\<lparr>v_avgTemp := temperatures key\<rparr>))"

text \<open>
  The same step with the one operation of it that can throw written out: reading
  \<open>planet\<close> of \<open>undefined\<close> or \<open>null\<close> is a \<open>TypeError\<close>. The \<open>&&\<close> stops at a falsy
  \<open>aroundPlanet\<close>; the read of \<open>temperatures[key]\<close> and the arithmetic that follows
  cannot throw.
\<close>

datatype JsError = TypeError

definition read_planet :: "AroundPlanet option \<Rightarrow> JsError + string option" where
  "read_planet a = (case a of None \<Rightarrow> Inl TypeError | Some ap \<Rightarrow> Inr (planet ap))"

definition overrideTempChecked :: "Frame \<Rightarrow> JsError + Frame" where
  "overrideTempChecked f =
    (case v_aroundPlanet f of
       None \<Rightarrow> Inr f
     | Some _ \<Rightarrow>
         (case read_planet (v_aroundPlanet f) of
            Inl e \<Rightarrow> Inl e
          | Inr None \<Rightarrow> Inr f
          | Inr (Some key) \<Rightarrow>
              if key = [] then Inr f else Inr (f\<lparr>v_avgTemp := temperatures key\<rparr>)))"

text \<open>The base colour, after the density adjustment.\<close>

definition baseColorOf :: "Frame \<Rightarrow> Color" where
  "baseColorOf f =
    (let baseColor = temperatureToColor (v_avgTemp f)
     in if js_gt (ToNumber (v_density f)) (Fin 5) then multiplyScalar baseColor 0.8
        else baseColor)"

text \<open>The success callback of the first load.\<close>

definition onLoad :: "Frame \<Rightarrow> ('img \<Rightarrow> nat list) \<Rightarrow> 'img \<Rightarrow> 'img Texture" where
  "onLoad f draw img =
    (let baseColor = baseColorOf f;
         data = loopY (v_axialTilt f) baseColor 0 (draw img)
     in \<lparr>tex_image = CanvasOf data, tex_encoding = Some LinearSRGBColorSpace\<rparr>)"

text \<open>
  One call: how the promise settles, the paths handed to the loader in order, and the
  caller's object when the promise has settled.
\<close>

record 'img Run =
  settled :: "'img Texture Promise"
  requests :: "string list"
  exoplanet_after :: CelestialBody

definition generatePlanetTexture ::
  "(nat \<Rightarrow> string \<Rightarrow> 'img LoadResult) \<Rightarrow> ('img \<Rightarrow> nat list) \<Rightarrow> CelestialBody \<Rightarrow> 'img Run" where
  "generatePlanetTexture load draw b =
    (let f = overrideTemp (destructure b);
         texturePath = selectPlanetTexture (exoplanet f)
     in case load 0 texturePath of
          Loaded baseTexture \<Rightarrow>
            \<lparr>settled = Resolved (onLoad f draw baseTexture),
             requests = [texturePath],
             exoplanet_after = exoplanet f\<rparr>
        | Failed error \<Rightarrow>
            (case load 1 textures_mercury of
               Loaded fallbackTexture \<Rightarrow>
                 \<lparr>settled = Resolved \<lparr>tex_image = ImageOf fallbackTexture, tex_encoding = None\<rparr>,
                  requests = [texturePath, textures_mercury],
                  exoplanet_after = exoplanet f\<rparr>
             | Failed fallbackError \<Rightarrow>
                 \<lparr>settled = Rejected fallbackError,
                  requests = [texturePath, textures_mercury],
                  exoplanet_after = exoplanet f\<rparr>))"

section \<open>The catalog client\<close>

text \<open>
  What \<open>response.data\<close> can be: the catalog object with its \<open>bodies\<close> field, an array,
  or any other value. \<open>axios.get\<close> is taken to settle: it returns a response or throws.
\<close>

datatype Payload = Catalog "CelestialBody list" | Array "CelestialBody list" | OtherData

record Response =
  response_data :: Payload

datatype LogEntry = ConsoleError string ErrorEvent

record Fetch =
  fetched :: "Payload Promise"
  console :: "LogEntry list"

definition getExoplanets :: "ErrorEvent + Response \<Rightarrow> Fetch" where
  "getExoplanets got =
    (case got of
       Inr response \<Rightarrow> \<lparr>fetched = Resolved (response_data response), console = []\<rparr>
     | Inl error \<Rightarrow>
         \<lparr>fetched = Resolved (Array []),
          console = [ConsoleError ''Error fetching exoplanet data:'' error]\<rparr>)"

section \<open>Derived notions used in the statements\<close>

text \<open>The effective temperature: the local \<open>avgTemp\<close> after the around-planet override.\<close>

definition effectiveTemp :: "CelestialBody \<Rightarrow> jsval" where
  "effectiveTemp b = v_avgTemp (overrideTemp (destructure b))"

text \<open>The path \<open>generatePlanetTexture\<close> hands to \<open>selectPlanetTexture\<close>'s result.\<close>

definition texturePathOf :: "CelestialBody \<Rightarrow> string" where
  "texturePathOf b = selectPlanetTexture (exoplanet (overrideTemp (destructure b)))"

text \<open>The tint of a body: the base colour its call multiplies every pixel by.\<close>

definition tintOf :: "CelestialBody \<Rightarrow> Color" where
  "tintOf b = baseColorOf (overrideTemp (destructure b))"

fun channel :: "Color \<Rightarrow> nat \<Rightarrow> real" where
  "channel c 0 = color_r c"
| "channel c (Suc 0) = color_g c"
| "channel c n = color_b c"

text \<open>What the pixel loop is expected to leave in one byte of the image data.\<close>

definition iced :: "jsval \<Rightarrow> nat \<Rightarrow> nat \<Rightarrow> nat \<Rightarrow> nat" where
  "iced tilt y x v = (if inPolarBand y x \<and> js_gt (ToNumber tilt) (Fin 20) then 255 else v)"

definition tinted :: "real \<Rightarrow> nat \<Rightarrow> nat" where
  "tinted k v = ToUint8Clamp (real v / 255 * k * 255)"

definition composited :: "jsval \<Rightarrow> Color \<Rightarrow> nat \<Rightarrow> nat \<Rightarrow> nat" where
  "composited tilt baseColor j v =
    (if j mod 4 < 3
     then tinted (channel baseColor (j mod 4))
            (iced tilt (j div 4 div textureSize) (j div 4 mod textureSize) v)
     else v)"

subsection \<open>Example inputs\<close>

text \<open>The body of the end-to-end example: a hot gas giant.\<close>

definition hotGasGiant :: CelestialBody where
  "hotGasGiant =
    \<lparr>meanRadius = JNumber (Fin 1), avgTemp = JNumber (Fin 600), bodyType = ''Gas Giant'',
     density = JNumber (Fin 3), axialTilt = JNumber (Fin 5), aroundPlanet = None\<rparr>"

text \<open>A rocky body at 400 K that orbits Mars.\<close>

definition hotRockyMoon :: CelestialBody where
  "hotRockyMoon =
    \<lparr>meanRadius = JNumber (Fin 1), avgTemp = JNumber (Fin 400), bodyType = ''Rocky'',
     density = JNumber (Fin 3), axialTilt = JNumber (Fin 5),
     aroundPlanet = Some \<lparr>planet = Some ''mars''\<rparr>\<rparr>"

text \<open>A body whose record has no \<open>avgTemp\<close>, and one that orbits a body the table lacks.\<close>

definition noTempBody :: CelestialBody where
  "noTempBody =
    \<lparr>meanRadius = JNumber (Fin 1), avgTemp = JUndefined, bodyType = ''Moon'',
     density = JNumber (Fin 3), axialTilt = JNumber (Fin 5), aroundPlanet = None\<rparr>"

definition moonOfVenus :: CelestialBody where
  "moonOfVenus =
    \<lparr>meanRadius = JNumber (Fin 1), avgTemp = JNumber (Fin 100), bodyType = ''Moon'',
     density = JNumber (Fin 3), axialTilt = JNumber (Fin 5),
     aroundPlanet = Some \<lparr>planet = Some ''venus''\<rparr>\<rparr>"

text \<open>A body that orbits the table's \<open>null\<close> entry.\<close>

definition moonOfNull :: CelestialBody where
  "moonOfNull =
    \<lparr>meanRadius = JNumber (Fin 1), avgTemp = JNumber (Fin 100), bodyType = ''Moon'',
     density = JNumber (Fin 3), axialTilt = JNumber (Fin 5),
     aroundPlanet = Some \<lparr>planet = Some ''null''\<rparr>\<rparr>"

text \<open>A body without \<open>avgTemp\<close> whose \<open>aroundPlanet\<close> has no \<open>planet\<close>.\<close>

definition ringlessBody :: CelestialBody where
  "ringlessBody =
    \<lparr>meanRadius = JNumber (Fin 1), avgTemp = JUndefined, bodyType = ''Moon'',
     density = JNumber (Fin 6), axialTilt = JNumber (Fin 5),
     aroundPlanet = Some \<lparr>planet = None\<rparr>\<rparr>"

text \<open>Loaders: every load succeeds; only the first load fails; every load fails.\<close>

definition loadAll :: "nat \<Rightarrow> string \<Rightarrow> nat LoadResult" where
  "loadAll n path = Loaded 7"

definition loadRetryOnly :: "nat \<Rightarrow> string \<Rightarrow> nat LoadResult" where
  "loadRetryOnly n path = (if n = 0 then Failed ''404'' else Loaded 7)"

definition loadNone :: "nat \<Rightarrow> string \<Rightarrow> nat LoadResult" where
  "loadNone n path = Failed ''404''"

text \<open>An image that rasterises to a uniform grey.\<close>

definition greyData :: "nat list" where
  "greyData = replicate (4 * textureSize * textureSize) 128"

definition drawGrey :: "nat \<Rightarrow> nat list" where
  "drawGrey img = greyData"

section \<open>Properties of the pixel loop\<close>

lemma length_iceCap [simp]: "length (iceCap tilt y x data) = length data"
  by (simp add: iceCap_def Let_def)

lemma length_tintPixel [simp]: "length (tintPixel c y x data) = length data"
  by (simp add: tintPixel_def Let_def)

lemma length_loopX [simp]: "length (loopX tilt c y x data) = length data"
  by (induction tilt c y x data rule: loopX.induct) (subst loopX.simps, simp)

lemma length_loopY [simp]: "length (loopY tilt c y data) = length data"
  by (induction tilt c y data rule: loopY.induct) (subst loopY.simps, simp)

lemma pixel_cases:
  "((j::nat) div 4 = k \<and> j mod 4 < 3) = (j = k * 4 \<or> j = k * 4 + 1 \<or> j = k * 4 + 2)"
  by presburger

lemma pixel_coords:
  assumes "x < textureSize"
  shows "(y * textureSize + x) div textureSize = y" "(y * textureSize + x) mod textureSize = x"
  using assms by simp_all

lemma pixel_in_range:
  assumes "x < textureSize" "y < textureSize"
  shows "pixelIndex y x + 3 < 4 * textureSize * textureSize"
proof -
  have "y * textureSize + x < y * textureSize + textureSize" using assms by simp
  also have "\<dots> = (y + 1) * textureSize" by simp
  also have "\<dots> \<le> textureSize * textureSize" using assms by (intro mult_le_mono1) simp
  finally show ?thesis by (simp add: pixelIndex_def)
qed

lemma step_nth:
  assumes len: "length data = 4 * textureSize * textureSize"
    and x: "x < textureSize" and y: "y < textureSize"
  shows "tintPixel c y x (iceCap tilt y x data) ! j =
    (if j div 4 = y * textureSize + x \<and> j mod 4 < 3 then composited tilt c j (data ! j) else data ! j)"
proof -
  define k where "k = y * textureSize + x"
  have idx: "pixelIndex y x = k * 4" by (simp add: pixelIndex_def k_def)
  have rng: "k * 4 + 3 < length data" using pixel_in_range[OF x y] len idx by simp
  have co: "k div textureSize = y" "k mod textureSize = x" using x by (simp_all add: k_def)
  consider (r) "j = k * 4" | (g) "j = k * 4 + 1" | (b) "j = k * 4 + 2"
    | (o) "j \<noteq> k * 4" "j \<noteq> k * 4 + 1" "j \<noteq> k * 4 + 2" by blast
  then show ?thesis
  proof cases
    case r
    then have "j div 4 = k" "j mod 4 = 0" by presburger+
    with r rng co show ?thesis
      by (simp add: tintPixel_def iceCap_def idx Let_def composited_def tinted_def iced_def
          multiply_def k_def[symmetric])
  next
    case g
    then have "j div 4 = k" "j mod 4 = 1" by presburger+
    with g rng co show ?thesis
      by (simp add: tintPixel_def iceCap_def idx Let_def composited_def tinted_def iced_def
          multiply_def k_def[symmetric])
  next
    case b
    then have "j div 4 = k" "j mod 4 = 2" by presburger+
    with b rng co show ?thesis
      by (simp add: tintPixel_def iceCap_def idx Let_def composited_def tinted_def iced_def
          multiply_def k_def[symmetric] numeral_2_eq_2)
  next
    case o
    then have n: "\<not> (j div 4 = k \<and> j mod 4 < 3)" by (simp add: pixel_cases)
    have "tintPixel c y x (iceCap tilt y x data) ! j = data ! j"
      using o by (simp add: tintPixel_def iceCap_def idx Let_def)
    with n show ?thesis unfolding k_def by auto
  qed
qed


lemma loopX_nth:
  assumes "length data = 4 * textureSize * textureSize" "y < textureSize"
  shows "loopX tilt c y x0 data ! j =
    (if j div 4 div textureSize = y \<and> x0 \<le> j div 4 mod textureSize \<and> j mod 4 < 3
     then composited tilt c j (data ! j) else data ! j)"
  using assms
proof (induction tilt c y x0 data rule: loopX.induct)
  case (1 tilt c y x data)
  show ?case
  proof (cases "x < textureSize")
    case False
    then have "\<not> x \<le> j div 4 mod textureSize"
      by (metis leD le_less_trans mod_less_divisor not_less textureSize_def zero_less_numeral)
    with False show ?thesis by (subst loopX.simps) simp
  next
    case True
    let ?d = "tintPixel c y x (iceCap tilt y x data)"
    have len: "length ?d = 4 * textureSize * textureSize" using "1.prems" by simp
    have ih: "loopX tilt c y (x + 1) ?d ! j =
      (if j div 4 div textureSize = y \<and> x + 1 \<le> j div 4 mod textureSize \<and> j mod 4 < 3
       then composited tilt c j (?d ! j) else ?d ! j)"
      using "1.IH"[OF True len "1.prems"(2)] .
    have st: "?d ! j =
      (if j div 4 = y * textureSize + x \<and> j mod 4 < 3 then composited tilt c j (data ! j) else data ! j)"
      using step_nth[OF "1.prems"(1) True "1.prems"(2)] .
    have eq: "(j div 4 = y * textureSize + x) = (j div 4 div textureSize = y \<and> j div 4 mod textureSize = x)"
      using True by (metis pixel_coords div_mult_mod_eq)
    have step: "loopX tilt c y x data = loopX tilt c y (x + 1) ?d"
      by (subst loopX.simps) (simp only: True if_True)
    show ?thesis
      unfolding step ih st eq by auto
  qed
qed

lemma loopY_nth:
  assumes "length data = 4 * textureSize * textureSize" "j < length data"
  shows "loopY tilt c y0 data ! j =
    (if y0 \<le> j div 4 div textureSize \<and> j mod 4 < 3
     then composited tilt c j (data ! j) else data ! j)"
  using assms
proof (induction tilt c y0 data rule: loopY.induct)
  case (1 tilt c y data)
  have row: "j div 4 div textureSize < textureSize"
  proof -
    have "j div 4 < textureSize * textureSize" using "1.prems" by simp
    then show ?thesis by (simp add: less_mult_imp_div_less)
  qed
  show ?case
  proof (cases "y < textureSize")
    case False
    with row show ?thesis by (subst loopY.simps) simp
  next
    case True
    let ?d = "loopX tilt c y 0 data"
    have len: "length ?d = 4 * textureSize * textureSize" using "1.prems" by simp
    have jl: "j < length ?d" using "1.prems" by simp
    have ih: "loopY tilt c (y + 1) ?d ! j =
      (if y + 1 \<le> j div 4 div textureSize \<and> j mod 4 < 3
       then composited tilt c j (?d ! j) else ?d ! j)"
      using "1.IH"[OF True len jl] .
    have st: "?d ! j =
      (if j div 4 div textureSize = y \<and> 0 \<le> j div 4 mod textureSize \<and> j mod 4 < 3
       then composited tilt c j (data ! j) else data ! j)"
      using loopX_nth[OF "1.prems"(1) True] .
    have step: "loopY tilt c y data = loopY tilt c (y + 1) ?d"
      by (subst loopY.simps) (simp only: True if_True)
    show ?thesis
      unfolding step ih st by auto
  qed
qed

section \<open>The caller's object\<close>

lemma exoplanet_overrideTemp: "exoplanet (overrideTemp f) = exoplanet f"
  by (simp add: overrideTemp_def split: option.splits)

lemma exoplanet_destructure: "exoplanet (destructure b) = b"
  by (simp add: destructure_def)

lemma texturePathOf_eq: "texturePathOf b = selectPlanetTexture b"
  by (simp add: texturePathOf_def exoplanet_overrideTemp exoplanet_destructure)

lemma textures_distinct:
  "distinct [textures_mercury, textures_venus, textures_mars, textures_jupiter, textures_saturn]"
  by (simp add: textures_mercury_def textures_venus_def textures_mars_def textures_jupiter_def
      textures_saturn_def)

section \<open>Asset selection\<close>

text \<open>
  C1, as stated: the asset is chosen from \<open>bodyType\<close> and the effective temperature.
  It fails on a rocky body at 400 K that orbits Mars: its effective temperature is the
  210 K of the table, at most 300, and the hot-rocky asset is selected, not the
  cool-rocky one.
\<close>

theorem selection_counterexample:
  "bodyType hotRockyMoon = ''Rocky''
   \<and> js_le (ToNumber (effectiveTemp hotRockyMoon)) (Fin 300)
   \<and> texturePathOf hotRockyMoon = textures_venus
   \<and> texturePathOf hotRockyMoon \<noteq> textures_mars"
  using textures_distinct
  by (simp add: texturePathOf_eq selectPlanetTexture_def hotRockyMoon_def effectiveTemp_def
      overrideTemp_def destructure_def temperatures_def temperatures_table_def)

text \<open>
  C1, amended: for every body the asset is a function of \<open>bodyType\<close> and of the
  record's own \<open>avgTemp\<close> field; the around-planet override does not reach the
  selection. A gas giant gets the hot-gas asset when its \<open>avgTemp\<close> is above 500 and the
  cool-gas asset otherwise (also when \<open>avgTemp\<close> is absent); a rocky body gets the
  hot-rocky asset above 300 and the cool-rocky asset otherwise; any other \<open>bodyType\<close>
  gets the fallback asset. The selected path is the first one handed to the loader.
\<close>

theorem selection_by_own_avgTemp:
  "(bodyType b = ''Gas Giant'' \<and> js_gt (ToNumber (avgTemp b)) (Fin 500)
      \<longrightarrow> texturePathOf b = textures_jupiter)
   \<and> (bodyType b = ''Gas Giant'' \<and> \<not> js_gt (ToNumber (avgTemp b)) (Fin 500)
      \<longrightarrow> texturePathOf b = textures_saturn)
   \<and> (bodyType b = ''Rocky'' \<and> js_gt (ToNumber (avgTemp b)) (Fin 300)
      \<longrightarrow> texturePathOf b = textures_venus)
   \<and> (bodyType b = ''Rocky'' \<and> \<not> js_gt (ToNumber (avgTemp b)) (Fin 300)
      \<longrightarrow> texturePathOf b = textures_mars)
   \<and> (bodyType b \<noteq> ''Gas Giant'' \<and> bodyType b \<noteq> ''Rocky''
      \<longrightarrow> texturePathOf b = textures_mercury)
   \<and> (bodyType b = bodyType b' \<and> avgTemp b = avgTemp b'
      \<longrightarrow> texturePathOf b = texturePathOf b')
   \<and> requests (generatePlanetTexture load draw b) ! 0 = texturePathOf b"
  by (auto simp add: texturePathOf_eq selectPlanetTexture_def generatePlanetTexture_def Let_def
      exoplanet_overrideTemp exoplanet_destructure split: LoadResult.splits)

theorem selection_by_own_avgTemp_witness:
  "texturePathOf hotGasGiant = textures_jupiter
   \<and> texturePathOf (hotGasGiant\<lparr>avgTemp := JNumber (Fin 500)\<rparr>) = textures_saturn
   \<and> texturePathOf hotRockyMoon = textures_venus
   \<and> texturePathOf (hotRockyMoon\<lparr>avgTemp := JNumber (Fin 300)\<rparr>) = textures_mars
   \<and> texturePathOf noTempBody = textures_mercury
   \<and> texturePathOf (hotRockyMoon\<lparr>aroundPlanet := None\<rparr>) = texturePathOf hotRockyMoon"
proof -
  have "bodyType hotGasGiant = ''Gas Giant''" "js_gt (ToNumber (avgTemp hotGasGiant)) (Fin 500)"
    by (simp_all add: hotGasGiant_def)
  then have 1: "texturePathOf hotGasGiant = textures_jupiter"
    using selection_by_own_avgTemp [of hotGasGiant hotGasGiant loadAll drawGrey] by simp
  have 2: "texturePathOf (hotGasGiant\<lparr>avgTemp := JNumber (Fin 500)\<rparr>) = textures_saturn"
    using selection_by_own_avgTemp
      [of "hotGasGiant\<lparr>avgTemp := JNumber (Fin 500)\<rparr>" hotGasGiant loadAll drawGrey]
    by (simp add: hotGasGiant_def)
  have 3: "texturePathOf hotRockyMoon = textures_venus"
    using selection_by_own_avgTemp [of hotRockyMoon hotRockyMoon loadAll drawGrey]
    by (simp add: hotRockyMoon_def)
  have 4: "texturePathOf (hotRockyMoon\<lparr>avgTemp := JNumber (Fin 300)\<rparr>) = textures_mars"
    using selection_by_own_avgTemp
      [of "hotRockyMoon\<lparr>avgTemp := JNumber (Fin 300)\<rparr>" hotRockyMoon loadAll drawGrey]
    by (simp add: hotRockyMoon_def)
  have 5: "texturePathOf noTempBody = textures_mercury"
    using selection_by_own_avgTemp [of noTempBody noTempBody loadAll drawGrey]
    by (simp add: noTempBody_def)
  have 6: "texturePathOf (hotRockyMoon\<lparr>aroundPlanet := None\<rparr>) = texturePathOf hotRockyMoon"
    using selection_by_own_avgTemp
      [of "hotRockyMoon\<lparr>aroundPlanet := None\<rparr>" hotRockyMoon loadAll drawGrey]
    by simp
  from 1 2 3 4 5 6 show ?thesis by blast
qed

section \<open>The input record is only read\<close>

text \<open>
  C10: \<open>generatePlanetTexture\<close> does not change the record it is given. The override
  assigns the local variable \<open>avgTemp\<close>; when the promise has settled, the caller's
  object is the one that was passed in, whatever the loader does.
\<close>

theorem input_not_mutated:
  "exoplanet_after (generatePlanetTexture load draw b) = b"
  by (simp add: generatePlanetTexture_def Let_def exoplanet_overrideTemp exoplanet_destructure
      split: LoadResult.splits)

section \<open>How the promise settles\<close>

lemma generatePlanetTexture_cases:
  "generatePlanetTexture load draw b =
    (case load 0 (texturePathOf b) of
       Loaded img \<Rightarrow>
         \<lparr>settled = Resolved (onLoad (overrideTemp (destructure b)) draw img),
          requests = [texturePathOf b], exoplanet_after = b\<rparr>
     | Failed e \<Rightarrow>
         (case load 1 textures_mercury of
            Loaded fb \<Rightarrow>
              \<lparr>settled = Resolved \<lparr>tex_image = ImageOf fb, tex_encoding = None\<rparr>,
               requests = [texturePathOf b, textures_mercury], exoplanet_after = b\<rparr>
          | Failed e2 \<Rightarrow>
              \<lparr>settled = Rejected e2,
               requests = [texturePathOf b, textures_mercury], exoplanet_after = b\<rparr>))"
  by (simp add: generatePlanetTexture_def Let_def texturePathOf_def exoplanet_overrideTemp
      exoplanet_destructure split: LoadResult.splits)

lemma v_axialTilt_frame: "v_axialTilt (overrideTemp (destructure b)) = axialTilt b"
  by (simp add: overrideTemp_def destructure_def split: option.splits)

lemma v_density_frame: "v_density (overrideTemp (destructure b)) = density b"
  by (simp add: overrideTemp_def destructure_def split: option.splits)

lemma onLoad_eq:
  "onLoad (overrideTemp (destructure b)) draw img =
    \<lparr>tex_image = CanvasOf (loopY (axialTilt b) (tintOf b) 0 (draw img)),
     tex_encoding = Some LinearSRGBColorSpace\<rparr>"
  by (simp add: onLoad_def Let_def tintOf_def v_axialTilt_frame)

text \<open>
  C4: the promise is rejected exactly when the load of the selected asset and the load
  of the fallback asset both fail. A failure of the first load is followed by one more
  load, of the fallback asset, and by no other; when that one succeeds the promise is
  resolved; when it fails the promise is rejected with the error of the fallback load.
  When the first load succeeds the promise is resolved and nothing else is loaded.
\<close>

theorem rejects_iff_both_loads_fail:
  "((\<exists>e. settled (generatePlanetTexture load draw b) = Rejected e)
      = (\<exists>e1 e2. load 0 (texturePathOf b) = Failed e1 \<and> load 1 textures_mercury = Failed e2))
   \<and> (\<forall>e1. load 0 (texturePathOf b) = Failed e1
        \<longrightarrow> requests (generatePlanetTexture load draw b) = [texturePathOf b, textures_mercury])
   \<and> (\<forall>e1 img. load 0 (texturePathOf b) = Failed e1 \<and> load 1 textures_mercury = Loaded img
        \<longrightarrow> (\<exists>t. settled (generatePlanetTexture load draw b) = Resolved t))
   \<and> (\<forall>e1 e2. load 0 (texturePathOf b) = Failed e1 \<and> load 1 textures_mercury = Failed e2
        \<longrightarrow> settled (generatePlanetTexture load draw b) = Rejected e2)
   \<and> (\<forall>img. load 0 (texturePathOf b) = Loaded img
        \<longrightarrow> (\<exists>t. settled (generatePlanetTexture load draw b) = Resolved t)
            \<and> requests (generatePlanetTexture load draw b) = [texturePathOf b])"
  by (auto simp add: generatePlanetTexture_cases split: LoadResult.splits)

theorem rejects_iff_both_loads_fail_witness:
  "settled (generatePlanetTexture loadNone drawGrey hotGasGiant) = Rejected ''404''
   \<and> requests (generatePlanetTexture loadRetryOnly drawGrey hotGasGiant)
       = [texturePathOf hotGasGiant, textures_mercury]
   \<and> (\<exists>t. settled (generatePlanetTexture loadRetryOnly drawGrey hotGasGiant) = Resolved t)
   \<and> (\<exists>t. settled (generatePlanetTexture loadAll drawGrey hotGasGiant) = Resolved t)
   \<and> requests (generatePlanetTexture loadAll drawGrey hotGasGiant) = [texturePathOf hotGasGiant]"
proof -
  have a: "loadNone 0 (texturePathOf hotGasGiant) = Failed ''404''"
    "loadNone 1 textures_mercury = Failed ''404''"
    by (simp_all add: loadNone_def)
  have b: "loadRetryOnly 0 (texturePathOf hotGasGiant) = Failed ''404''"
    "loadRetryOnly 1 textures_mercury = Loaded 7"
    by (simp_all add: loadRetryOnly_def)
  have c: "loadAll 0 (texturePathOf hotGasGiant) = Loaded 7"
    by (simp add: loadAll_def)
  show ?thesis
    using rejects_iff_both_loads_fail [of loadNone drawGrey hotGasGiant]
      rejects_iff_both_loads_fail [of loadRetryOnly drawGrey hotGasGiant]
      rejects_iff_both_loads_fail [of loadAll drawGrey hotGasGiant] a b c
    by blast
qed

text \<open>
  C2, as stated: every resolved value is the composited, tagged canvas image. It fails
  when the first load fails and the fallback load succeeds: the promise is resolved with
  the texture the loader produced for the fallback image, no pixel of it composited and
  its encoding never assigned.
\<close>

theorem fallback_resolves_raw_image:
  "settled (generatePlanetTexture loadRetryOnly drawGrey hotGasGiant)
     = Resolved \<lparr>tex_image = ImageOf 7, tex_encoding = None\<rparr>
   \<and> settled (generatePlanetTexture loadRetryOnly drawGrey hotGasGiant)
     \<noteq> Resolved \<lparr>tex_image = CanvasOf (loopY (axialTilt hotGasGiant) (tintOf hotGasGiant) 0 (drawGrey 7)),
                  tex_encoding = Some LinearSRGBColorSpace\<rparr>"
  by (simp add: generatePlanetTexture_cases loadRetryOnly_def)

text \<open>
  C2, amended: when the load of the selected asset succeeds, the resolved value is the
  canvas image after the pixel loop, with the encoding set to the linear colour space; for
  image data of the canvas size the loop keeps the length and leaves in every byte the
  composited value (ice overlay, then tint; alpha unchanged). When the promise is
  resolved through the fallback retry, the resolved value is the loaded fallback image as
  it is.
\<close>

theorem resolved_value:
  "(\<forall>img. load 0 (texturePathOf b) = Loaded img \<longrightarrow>
      settled (generatePlanetTexture load draw b)
        = Resolved \<lparr>tex_image = CanvasOf (loopY (axialTilt b) (tintOf b) 0 (draw img)),
                    tex_encoding = Some LinearSRGBColorSpace\<rparr>
      \<and> (length (draw img) = 4 * textureSize * textureSize \<longrightarrow>
           length (loopY (axialTilt b) (tintOf b) 0 (draw img)) = length (draw img)
           \<and> (\<forall>j < length (draw img).
                 loopY (axialTilt b) (tintOf b) 0 (draw img) ! j
                   = composited (axialTilt b) (tintOf b) j (draw img ! j))))
   \<and> (\<forall>e fb. load 0 (texturePathOf b) = Failed e \<and> load 1 textures_mercury = Loaded fb \<longrightarrow>
      settled (generatePlanetTexture load draw b)
        = Resolved \<lparr>tex_image = ImageOf fb, tex_encoding = None\<rparr>)"
proof -
  have "loopY tilt c 0 d ! j = composited tilt c j (d ! j)"
    if "length d = 4 * textureSize * textureSize" "j < length d" for tilt c d j
    using loopY_nth [OF that, of tilt c 0] by (simp add: composited_def)
  then show ?thesis
    by (auto simp add: generatePlanetTexture_cases onLoad_eq)
qed

theorem resolved_value_witness:
  "settled (generatePlanetTexture loadAll drawGrey hotGasGiant)
     = Resolved \<lparr>tex_image = CanvasOf (loopY (axialTilt hotGasGiant) (tintOf hotGasGiant) 0 (drawGrey 7)),
                 tex_encoding = Some LinearSRGBColorSpace\<rparr>
   \<and> loopY (axialTilt hotGasGiant) (tintOf hotGasGiant) 0 (drawGrey 7) ! 5
     = composited (axialTilt hotGasGiant) (tintOf hotGasGiant) 5 (drawGrey 7 ! 5)
   \<and> settled (generatePlanetTexture loadRetryOnly drawGrey hotGasGiant)
     = Resolved \<lparr>tex_image = ImageOf 7, tex_encoding = None\<rparr>"
proof -
  have a: "loadAll 0 (texturePathOf hotGasGiant) = Loaded 7" by (simp add: loadAll_def)
  have b: "loadRetryOnly 0 (texturePathOf hotGasGiant) = Failed ''404''
    \<and> loadRetryOnly 1 textures_mercury = Loaded 7"
    by (simp add: loadRetryOnly_def)
  have len: "length (drawGrey 7) = 4 * textureSize * textureSize"
    by (simp add: drawGrey_def greyData_def)
  have five: "5 < length (drawGrey 7)"
    by (simp add: drawGrey_def greyData_def textureSize_def)
  note r1 = resolved_value [of loadAll hotGasGiant drawGrey, THEN conjunct1, rule_format, OF a]
  note r2 = resolved_value [of loadRetryOnly hotGasGiant drawGrey, THEN conjunct2, rule_format, OF b]
  from r1 have s: "settled (generatePlanetTexture loadAll drawGrey hotGasGiant)
     = Resolved \<lparr>tex_image = CanvasOf (loopY (axialTilt hotGasGiant) (tintOf hotGasGiant) 0 (drawGrey 7)),
                 tex_encoding = Some LinearSRGBColorSpace\<rparr>"
    by (rule conjunct1)
  from r1 len five have p: "loopY (axialTilt hotGasGiant) (tintOf hotGasGiant) 0 (drawGrey 7) ! 5
     = composited (axialTilt hotGasGiant) (tintOf hotGasGiant) 5 (drawGrey 7 ! 5)"
    by blast
  from s p r2 show ?thesis by blast
qed

section \<open>The catalog client\<close>

text \<open>
  C8, as stated: the caller gets the list of bodies or an empty array. It fails whenever
  \<open>axios.get\<close> returns a response: the promise is resolved with \<open>response.data\<close> as it
  is. For the catalog that is the object whose \<open>bodies\<close> field holds the list, not the
  list; for any other payload, such as the text of a body that is not JSON, it is that
  payload, and nothing is logged.
\<close>

theorem payload_passed_through:
  "fetched (getExoplanets (Inr \<lparr>response_data = Catalog [hotGasGiant]\<rparr>))
     = Resolved (Catalog [hotGasGiant])
   \<and> fetched (getExoplanets (Inr \<lparr>response_data = Catalog [hotGasGiant]\<rparr>))
     \<noteq> Resolved (Array [hotGasGiant])
   \<and> fetched (getExoplanets (Inr \<lparr>response_data = Catalog [hotGasGiant]\<rparr>))
     \<noteq> Resolved (Array [])
   \<and> fetched (getExoplanets (Inr \<lparr>response_data = OtherData\<rparr>)) = Resolved OtherData
   \<and> fetched (getExoplanets (Inr \<lparr>response_data = OtherData\<rparr>)) \<noteq> Resolved (Array [])
   \<and> console (getExoplanets (Inr \<lparr>response_data = OtherData\<rparr>)) = []"
  by (simp add: getExoplanets_def)

text \<open>
  C8, amended: \<open>getExoplanets\<close> never rejects. When \<open>axios.get\<close> throws, the error is logged
  and the promise is resolved with the empty array; when it returns a response, the
  promise is resolved with \<open>response.data\<close> as it is and nothing is logged.
\<close>

theorem getExoplanets_never_rejects:
  "(\<forall>e. fetched (getExoplanets got) \<noteq> Rejected e)
   \<and> (\<forall>error. got = Inl error \<longrightarrow>
         fetched (getExoplanets got) = Resolved (Array [])
         \<and> console (getExoplanets got) = [ConsoleError ''Error fetching exoplanet data:'' error])
   \<and> (\<forall>response. got = Inr response \<longrightarrow>
         fetched (getExoplanets got) = Resolved (response_data response)
         \<and> console (getExoplanets got) = [])"
  by (simp add: getExoplanets_def split: sum.splits)

theorem getExoplanets_never_rejects_witness:
  "fetched (getExoplanets (Inl ''Network Error'')) = Resolved (Array [])
   \<and> console (getExoplanets (Inl ''Network Error''))
       = [ConsoleError ''Error fetching exoplanet data:'' ''Network Error'']
   \<and> fetched (getExoplanets (Inr \<lparr>response_data = Catalog [hotGasGiant]\<rparr>))
       = Resolved (Catalog [hotGasGiant])
   \<and> fetched (getExoplanets (Inr \<lparr>response_data = Catalog [hotGasGiant]\<rparr>)) \<noteq> Rejected ''Network Error''"
  using getExoplanets_never_rejects [of "Inl ''Network Error''"]
    getExoplanets_never_rejects [of "Inr \<lparr>response_data = Catalog [hotGasGiant]\<rparr>"]
  by simp

section \<open>The effective temperature\<close>

lemma table_key_nonempty: "map_of temperatures_table key = Some v \<Longrightarrow> key \<noteq> []"
  by (auto simp add: temperatures_table_def split: if_splits)

lemma effectiveTemp_override:
  assumes "aroundPlanet b = Some ap" "planet ap = Some key" "key \<noteq> []"
  shows "effectiveTemp b = temperatures key"
  using assms by (simp add: effectiveTemp_def overrideTemp_def destructure_def)

lemma effectiveTemp_plain:
  "aroundPlanet b = None \<Longrightarrow> effectiveTemp b = avgTemp b"
  by (simp add: effectiveTemp_def overrideTemp_def destructure_def)

lemma tintOf_eq:
  "tintOf b =
    (if js_gt (ToNumber (density b)) (Fin 5)
     then multiplyScalar (temperatureToColor (effectiveTemp b)) 0.8
     else temperatureToColor (effectiveTemp b))"
  by (simp add: tintOf_def baseColorOf_def Let_def v_density_frame effectiveTemp_def)

text \<open>
  C6: when \<open>aroundPlanet.planet\<close> is a key of the temperature table, the effective
  temperature is the value of the table, and so is the temperature the tint is computed
  from: changing the record's own \<open>avgTemp\<close> changes neither. For the key \<open>mars\<close> the
  effective temperature is 210.
\<close>

theorem override_uses_table_value:
  assumes "map_of temperatures_table key = Some v"
    and "aroundPlanet b = Some ap" and "planet ap = Some key"
  shows "effectiveTemp b = v
    \<and> effectiveTemp (b\<lparr>avgTemp := t\<rparr>) = v
    \<and> tintOf (b\<lparr>avgTemp := t\<rparr>) = tintOf b
    \<and> tintOf b = (if js_gt (ToNumber (density b)) (Fin 5)
                  then multiplyScalar (temperatureToColor v) 0.8 else temperatureToColor v)
    \<and> (key = ''mars'' \<longrightarrow> effectiveTemp b = JNumber (Fin 210))"
proof -
  have ne: "key \<noteq> []" using assms(1) by (rule table_key_nonempty)
  have tv: "temperatures key = v" using assms(1) by (simp add: temperatures_def)
  have e1: "effectiveTemp b = v"
    using effectiveTemp_override [OF assms(2,3) ne] tv by simp
  have e2: "effectiveTemp (b\<lparr>avgTemp := t\<rparr>) = v"
    using effectiveTemp_override [of "b\<lparr>avgTemp := t\<rparr>" ap key] assms(2,3) ne tv by simp
  have m: "key = ''mars'' \<longrightarrow> v = JNumber (Fin 210)"
    using assms(1) by (auto simp add: temperatures_table_def)
  show ?thesis using e1 e2 m by (simp add: tintOf_eq)
qed

theorem override_uses_table_value_witness:
  "map_of temperatures_table ''mars'' = Some (JNumber (Fin 210))
   \<and> aroundPlanet hotRockyMoon = Some \<lparr>planet = Some ''mars''\<rparr>
   \<and> avgTemp hotRockyMoon = JNumber (Fin 400)
   \<and> effectiveTemp hotRockyMoon = JNumber (Fin 210)
   \<and> tintOf (hotRockyMoon\<lparr>avgTemp := JNumber (Fin 999)\<rparr>) = tintOf hotRockyMoon"
proof -
  have a: "map_of temperatures_table ''mars'' = Some (JNumber (Fin 210))"
    by (simp add: temperatures_table_def)
  have b: "aroundPlanet hotRockyMoon = Some \<lparr>planet = Some ''mars''\<rparr>"
    "avgTemp hotRockyMoon = JNumber (Fin 400)"
    by (simp_all add: hotRockyMoon_def)
  have c: "planet \<lparr>planet = Some ''mars''\<rparr> = Some ''mars''" by simp
  show ?thesis
    using override_uses_table_value [OF a b(1) c, of "JNumber (Fin 999)"] a b by simp
qed

section \<open>The tint\<close>

lemma js_rem_1: "js_rem n 1 = (if 0 \<le> n then n - of_int \<lfloor>n\<rfloor> else n - of_int \<lceil>n\<rceil>)"
  by (simp add: js_rem_def Let_def)

lemma euclideanModulo_range: "0 \<le> euclideanModulo h 1 \<and> euclideanModulo h 1 < 1"
proof -
  define a where "a = js_rem h 1 + 1"
  have "0 < a"
    unfolding a_def js_rem_1 by (auto) linarith+
  then have "js_rem a 1 = a - of_int \<lfloor>a\<rfloor>" by (simp add: js_rem_1)
  moreover have "0 \<le> a - of_int \<lfloor>a\<rfloor>" "a - of_int \<lfloor>a\<rfloor> < 1" by linarith+
  ultimately show ?thesis by (simp add: euclideanModulo_def a_def)
qed

lemma euclideanModulo_id: "0 \<le> h \<Longrightarrow> h < 1 \<Longrightarrow> euclideanModulo h 1 = h"
proof -
  assume h: "0 \<le> h" "h < 1"
  then have f: "\<lfloor>h\<rfloor> = 0" by linarith
  from h have g: "\<lfloor>h + 1\<rfloor> = 1" by linarith
  show ?thesis using h f g by (simp add: euclideanModulo_def js_rem_1)
qed

lemma euclideanModulo_one: "euclideanModulo 1 1 = 0"
  by (simp add: euclideanModulo_def js_rem_1)

lemma hue2rgb_range:
  assumes "- (1 / 3) \<le> t" "t < 4 / 3"
  shows "0 \<le> hue2rgb 0 1 (Fin t) \<and> hue2rgb 0 1 (Fin t) \<le> 1"
  using assms by (auto simp add: Let_def)

lemma setHSL_full:
  "setHSL h 1 (1 / 2) =
    \<lparr>color_r = hue2rgb 0 1 (js_add_real (js_mod1 h) (1 / 3)),
     color_g = hue2rgb 0 1 (js_mod1 h),
     color_b = hue2rgb 0 1 (js_add_real (js_mod1 h) (- (1 / 3)))\<rparr>"
  by (simp add: setHSL_def clamp_def Let_def)

lemma setHSL_NaN: "setHSL NaN 1 (1 / 2) = \<lparr>color_r = 0, color_g = 0, color_b = 0\<rparr>"
  by (simp add: setHSL_full)

lemma setHSL_range:
  "0 \<le> color_r (setHSL h 1 (1 / 2)) \<and> color_r (setHSL h 1 (1 / 2)) \<le> 1
   \<and> 0 \<le> color_g (setHSL h 1 (1 / 2)) \<and> color_g (setHSL h 1 (1 / 2)) \<le> 1
   \<and> 0 \<le> color_b (setHSL h 1 (1 / 2)) \<and> color_b (setHSL h 1 (1 / 2)) \<le> 1"
proof (cases h)
  case NaN
  show ?thesis unfolding NaN setHSL_NaN by simp
next
  case (Fin x)
  define m where "m = euclideanModulo x 1"
  have m: "0 \<le> m" "m < 1" using euclideanModulo_range [of x] by (simp_all add: m_def)
  have r: "0 \<le> hue2rgb 0 1 (Fin (m + 1 / 3)) \<and> hue2rgb 0 1 (Fin (m + 1 / 3)) \<le> 1"
    using m by (intro hue2rgb_range) simp_all
  have g: "0 \<le> hue2rgb 0 1 (Fin m) \<and> hue2rgb 0 1 (Fin m) \<le> 1"
    using m by (intro hue2rgb_range) simp_all
  have b: "0 \<le> hue2rgb 0 1 (Fin (m - 1 / 3)) \<and> hue2rgb 0 1 (Fin (m - 1 / 3)) \<le> 1"
    using m by (intro hue2rgb_range) simp_all
  show ?thesis
    using r g b unfolding setHSL_full Fin by (simp add: m_def)
qed

lemma temperatureToColor_range:
  "0 \<le> color_r (temperatureToColor t) \<and> color_r (temperatureToColor t) \<le> 1
   \<and> 0 \<le> color_g (temperatureToColor t) \<and> color_g (temperatureToColor t) \<le> 1
   \<and> 0 \<le> color_b (temperatureToColor t) \<and> color_b (temperatureToColor t) \<le> 1"
  using setHSL_range [of "hueOf t"] by (simp add: temperatureToColor_def)

lemma normalizedTemp_Fin:
  "ToNumber t = Fin r \<Longrightarrow> normalizedTemp t = Fin (min (max ((r - 50) / 350) 0) 1)"
  by (simp add: normalizedTemp_def minTemp_def maxTemp_def)

lemma normalizedTemp_NaN: "ToNumber t = NaN \<Longrightarrow> normalizedTemp t = NaN"
  by (simp add: normalizedTemp_def minTemp_def maxTemp_def)

lemma hueOf_Fin:
  "ToNumber t = Fin r \<Longrightarrow> hueOf t = Fin (1 - min (max ((r - 50) / 350) 0) 1)"
  by (simp add: hueOf_def normalizedTemp_Fin)

lemma effectiveTemp_density: "effectiveTemp (b\<lparr>density := d\<rparr>) = effectiveTemp b"
  by (simp add: effectiveTemp_def overrideTemp_def destructure_def split: option.splits)

lemma tintOf_range:
  "0 \<le> color_r (tintOf b) \<and> color_r (tintOf b) \<le> 1
   \<and> 0 \<le> color_g (tintOf b) \<and> color_g (tintOf b) \<le> 1
   \<and> 0 \<le> color_b (tintOf b) \<and> color_b (tintOf b) \<le> 1"
  using temperatureToColor_range [of "effectiveTemp b"]
  by (simp add: tintOf_eq multiplyScalar_def)

lemma red_at_hue_one: "setHSL (Fin 1) 1 (1 / 2) = \<lparr>color_r = 1, color_g = 0, color_b = 0\<rparr>"
  by (simp add: setHSL_full euclideanModulo_one)

lemma red_at_hue_zero: "setHSL (Fin 0) 1 (1 / 2) = \<lparr>color_r = 1, color_g = 0, color_b = 0\<rparr>"
  by (simp add: setHSL_full euclideanModulo_id)

lemma blue_at_two_thirds:
  "setHSL (Fin (2 / 3)) 1 (1 / 2) = \<lparr>color_r = 0, color_g = 0, color_b = 1\<rparr>"
  by (simp add: setHSL_full euclideanModulo_id)

lemma cold_red:
  "temperatureToColor (JNumber (Fin 50)) = \<lparr>color_r = 1, color_g = 0, color_b = 0\<rparr>"
  by (simp add: temperatureToColor_def hueOf_Fin red_at_hue_one)

lemma hue_in_range:
  assumes "50 \<le> r" "r \<le> 400"
  shows "hueOf (JNumber (Fin r)) = Fin (1 - (r - 50) / 350)"
  using assms by (simp add: hueOf_Fin min_def max_def)

lemma black_when_NaN:
  "ToNumber t = NaN \<Longrightarrow> temperatureToColor t = \<lparr>color_r = 0, color_g = 0, color_b = 0\<rparr>"
  by (simp add: temperatureToColor_def hueOf_def normalizedTemp_NaN setHSL_NaN)

text \<open>
  C9: with everything else equal, every channel of the tint of a body whose density is
  above 5 is 0.8 times the channel of the tint of the body whose density is not above 5
  (at most 5, or absent), which is the colour of the effective temperature; so no channel
  of the denser body's tint is larger.
\<close>

theorem density_darkens:
  assumes "js_gt (ToNumber d1) (Fin 5)" and "\<not> js_gt (ToNumber d2) (Fin 5)"
  shows "color_r (tintOf (b\<lparr>density := d1\<rparr>)) = 0.8 * color_r (tintOf (b\<lparr>density := d2\<rparr>))
    \<and> color_g (tintOf (b\<lparr>density := d1\<rparr>)) = 0.8 * color_g (tintOf (b\<lparr>density := d2\<rparr>))
    \<and> color_b (tintOf (b\<lparr>density := d1\<rparr>)) = 0.8 * color_b (tintOf (b\<lparr>density := d2\<rparr>))
    \<and> tintOf (b\<lparr>density := d1\<rparr>) = multiplyScalar (tintOf (b\<lparr>density := d2\<rparr>)) 0.8
    \<and> tintOf (b\<lparr>density := d2\<rparr>) = temperatureToColor (effectiveTemp b)
    \<and> color_r (tintOf (b\<lparr>density := d1\<rparr>)) \<le> color_r (tintOf (b\<lparr>density := d2\<rparr>))
    \<and> color_g (tintOf (b\<lparr>density := d1\<rparr>)) \<le> color_g (tintOf (b\<lparr>density := d2\<rparr>))
    \<and> color_b (tintOf (b\<lparr>density := d1\<rparr>)) \<le> color_b (tintOf (b\<lparr>density := d2\<rparr>))"
proof -
  let ?c = "temperatureToColor (effectiveTemp b)"
  have t1: "tintOf (b\<lparr>density := d1\<rparr>) = multiplyScalar ?c 0.8"
    using assms(1) by (simp add: tintOf_eq effectiveTemp_density)
  have t2: "tintOf (b\<lparr>density := d2\<rparr>) = ?c"
    using assms(2) by (simp add: tintOf_eq effectiveTemp_density)
  have "0 \<le> color_r ?c" "0 \<le> color_g ?c" "0 \<le> color_b ?c"
    using temperatureToColor_range [of "effectiveTemp b"] by simp_all
  then show ?thesis
    unfolding t1 t2 by (simp add: multiplyScalar_def)
qed

theorem density_darkens_witness:
  "js_gt (ToNumber (JNumber (Fin 6))) (Fin 5) \<and> js_le (ToNumber (JNumber (Fin 5))) (Fin 5)
   \<and> color_r (tintOf (hotGasGiant\<lparr>density := JNumber (Fin 6)\<rparr>))
       = 0.8 * color_r (tintOf (hotGasGiant\<lparr>density := JNumber (Fin 5)\<rparr>))
   \<and> color_r (tintOf (hotGasGiant\<lparr>density := JNumber (Fin 6)\<rparr>))
       \<le> color_r (tintOf (hotGasGiant\<lparr>density := JNumber (Fin 5)\<rparr>))
   \<and> color_g (tintOf (hotGasGiant\<lparr>density := JNumber (Fin 6)\<rparr>))
       \<le> color_g (tintOf (hotGasGiant\<lparr>density := JNumber (Fin 5)\<rparr>))
   \<and> color_b (tintOf (hotGasGiant\<lparr>density := JNumber (Fin 6)\<rparr>))
       \<le> color_b (tintOf (hotGasGiant\<lparr>density := JNumber (Fin 5)\<rparr>))"
proof -
  have a: "js_gt (ToNumber (JNumber (Fin 6))) (Fin 5)" by simp
  have b: "\<not> js_gt (ToNumber (JNumber (Fin 5))) (Fin 5)" by simp
  have c: "color_r (tintOf (hotGasGiant\<lparr>density := JNumber (Fin 6)\<rparr>))
       = 0.8 * color_r (tintOf (hotGasGiant\<lparr>density := JNumber (Fin 5)\<rparr>))
   \<and> color_r (tintOf (hotGasGiant\<lparr>density := JNumber (Fin 6)\<rparr>))
       \<le> color_r (tintOf (hotGasGiant\<lparr>density := JNumber (Fin 5)\<rparr>))
   \<and> color_g (tintOf (hotGasGiant\<lparr>density := JNumber (Fin 6)\<rparr>))
       \<le> color_g (tintOf (hotGasGiant\<lparr>density := JNumber (Fin 5)\<rparr>))
   \<and> color_b (tintOf (hotGasGiant\<lparr>density := JNumber (Fin 6)\<rparr>))
       \<le> color_b (tintOf (hotGasGiant\<lparr>density := JNumber (Fin 5)\<rparr>))"
    using density_darkens [OF a b, of hotGasGiant] by blast
  show ?thesis using c by simp
qed

text \<open>
  What holds of the temperature mapping: the normalised temperature lies in [0,1], the
  hue handed to \<open>setHSL\<close> decreases strictly between 50 and 400, and a temperature at or
  below 50, or at or above 400, gets the tint of 50, or of 400.
\<close>

lemma tint_mapping_holds:
  "(\<exists>n. normalizedTemp (JNumber (Fin r)) = Fin n \<and> 0 \<le> n \<and> n \<le> 1)
   \<and> (50 < r \<and> r < r' \<and> r' < 400 \<longrightarrow>
        (\<exists>h h'. hueOf (JNumber (Fin r)) = Fin h \<and> hueOf (JNumber (Fin r')) = Fin h' \<and> h' < h))
   \<and> (r \<le> 50 \<longrightarrow> temperatureToColor (JNumber (Fin r)) = temperatureToColor (JNumber (Fin 50)))
   \<and> (400 \<le> r \<longrightarrow> temperatureToColor (JNumber (Fin r)) = temperatureToColor (JNumber (Fin 400)))"
proof -
  have a: "\<exists>n. normalizedTemp (JNumber (Fin r)) = Fin n \<and> 0 \<le> n \<and> n \<le> 1"
    by (simp add: normalizedTemp_Fin)
  have b: "\<exists>h h'. hueOf (JNumber (Fin r)) = Fin h \<and> hueOf (JNumber (Fin r')) = Fin h' \<and> h' < h"
    if "50 < r" "r < r'" "r' < 400"
  proof (intro exI conjI)
    show "hueOf (JNumber (Fin r)) = Fin (1 - (r - 50) / 350)"
      using that by (intro hue_in_range) simp_all
    show "hueOf (JNumber (Fin r')) = Fin (1 - (r' - 50) / 350)"
      using that by (intro hue_in_range) simp_all
    show "1 - (r' - 50) / 350 < 1 - (r - 50) / 350"
      using that by (simp add: divide_strict_right_mono)
  qed
  have c: "temperatureToColor (JNumber (Fin r)) = temperatureToColor (JNumber (Fin 50))"
    if "r \<le> 50"
    using that by (simp add: temperatureToColor_def hueOf_Fin min_def max_def)
  have d: "temperatureToColor (JNumber (Fin r)) = temperatureToColor (JNumber (Fin 400))"
    if "400 \<le> r"
    using that by (simp add: temperatureToColor_def hueOf_Fin min_def max_def)
  from a b c d show ?thesis by blast
qed

text \<open>
  C5 says the hue runs from blue (240 degrees) at the cold end to red (0 degrees) at the
  hot end, and so does the comment of \<open>temperatureToColor\<close>. The code hands
  \<open>1 - normalizedTemp\<close> to \<open>setHSL\<close>, whose hue is a fraction of the full circle: at 50 K
  the hue is 1, the full circle, and the colour is red, the colour of 400 K. Blue is the
  colour of the hue 240/360.
\<close>

theorem cold_end_is_red:
  "hueOf (JNumber (Fin 50)) = Fin 1
   \<and> temperatureToColor (JNumber (Fin 50)) = \<lparr>color_r = 1, color_g = 0, color_b = 0\<rparr>
   \<and> temperatureToColor (JNumber (Fin 400)) = \<lparr>color_r = 1, color_g = 0, color_b = 0\<rparr>
   \<and> setHSL (Fin (240 / 360)) 1 0.5 = \<lparr>color_r = 0, color_g = 0, color_b = 1\<rparr>
   \<and> temperatureToColor (JNumber (Fin 50)) \<noteq> setHSL (Fin (240 / 360)) 1 0.5"
proof -
  have h50: "hueOf (JNumber (Fin 50)) = Fin 1" by (simp add: hueOf_Fin)
  have h400: "hueOf (JNumber (Fin 400)) = Fin 0" by (simp add: hueOf_Fin)
  note c50 = cold_red
  have c400: "temperatureToColor (JNumber (Fin 400)) = \<lparr>color_r = 1, color_g = 0, color_b = 0\<rparr>"
    by (simp add: temperatureToColor_def h400 red_at_hue_zero)
  show ?thesis using h50 by (simp add: c50 c400 blue_at_two_thirds)
qed

text \<open>
  C3, as stated: a body without \<open>avgTemp\<close>, or around a planet the table lacks, is
  tinted as the minimum of the colour scale. It fails on both: the normalised temperature
  is \<open>NaN\<close> and the tint is black, not the colour of the minimum temperature.
\<close>

theorem missing_temperature_counterexample:
  "avgTemp noTempBody = JUndefined \<and> aroundPlanet noTempBody = None
   \<and> normalizedTemp (effectiveTemp noTempBody) = NaN
   \<and> tintOf noTempBody = \<lparr>color_r = 0, color_g = 0, color_b = 0\<rparr>
   \<and> tintOf noTempBody \<noteq> temperatureToColor (JNumber (Fin minTemp))
   \<and> map_of temperatures_table ''venus'' = None
   \<and> aroundPlanet moonOfVenus = Some \<lparr>planet = Some ''venus''\<rparr>
   \<and> normalizedTemp (effectiveTemp moonOfVenus) = NaN
   \<and> tintOf moonOfVenus \<noteq> temperatureToColor (JNumber (Fin minTemp))"
proof -
  have e1: "effectiveTemp noTempBody = JUndefined"
    by (simp add: effectiveTemp_plain noTempBody_def)
  have e2: "effectiveTemp moonOfVenus = JUndefined"
    by (simp add: effectiveTemp_def overrideTemp_def destructure_def moonOfVenus_def
        temperatures_def temperatures_table_def inherited_keys_def)
  have d: "\<not> js_gt (ToNumber (density noTempBody)) (Fin 5)"
    "\<not> js_gt (ToNumber (density moonOfVenus)) (Fin 5)"
    by (simp_all add: noTempBody_def moonOfVenus_def)
  have t1: "tintOf noTempBody = \<lparr>color_r = 0, color_g = 0, color_b = 0\<rparr>"
    using d by (simp add: tintOf_eq e1 black_when_NaN)
  have t2: "tintOf moonOfVenus = \<lparr>color_r = 0, color_g = 0, color_b = 0\<rparr>"
    using d by (simp add: tintOf_eq e2 black_when_NaN)
  have m: "temperatureToColor (JNumber (Fin minTemp)) = \<lparr>color_r = 1, color_g = 0, color_b = 0\<rparr>"
    using cold_red by (simp add: minTemp_def)
  show ?thesis
    unfolding t1 t2 m e1 e2
    by (simp add: normalizedTemp_NaN noTempBody_def moonOfVenus_def temperatures_table_def)
qed

lemma overrideTempChecked_ok: "overrideTempChecked f = Inr (overrideTemp f)"
  by (simp add: overrideTempChecked_def overrideTemp_def read_planet_def split: option.splits)

lemma effectiveTemp_cases:
  "effectiveTemp b =
    (case aroundPlanet b of
       None \<Rightarrow> avgTemp b
     | Some ap \<Rightarrow>
         (case planet ap of
            None \<Rightarrow> avgTemp b
          | Some key \<Rightarrow> if key = [] then avgTemp b else temperatures key))"
  by (simp add: effectiveTemp_def overrideTemp_def destructure_def split: option.splits)

lemma tint_black:
  "ToNumber (effectiveTemp b) = NaN \<Longrightarrow> tintOf b = \<lparr>color_r = 0, color_g = 0, color_b = 0\<rparr>"
  by (simp add: tintOf_eq black_when_NaN multiplyScalar_def)

lemma tint_null:
  assumes "effectiveTemp b = JNull"
  shows "tintOf b =
    (if js_gt (ToNumber (density b)) (Fin 5)
     then multiplyScalar (temperatureToColor (JNumber (Fin minTemp))) 0.8
     else temperatureToColor (JNumber (Fin minTemp)))"
proof -
  have "temperatureToColor JNull = temperatureToColor (JNumber (Fin minTemp))"
    by (simp add: temperatureToColor_def hueOf_Fin minTemp_def)
  then show ?thesis by (simp add: tintOf_eq assms)
qed

text \<open>
  C3, amended: no step of the temperature lookup throws, and every channel of the tint
  lies in [0,1]. A body around the table's \<open>null\<close> entry has the effective temperature
  \<open>null\<close>, which counts as 0: the normalised temperature is 0 and the tint is the tint of
  the minimum temperature (darkened when the body is dense). A body around a planet the
  table lacks, and a body without \<open>avgTemp\<close> to which no override applies (no
  \<open>aroundPlanet\<close>, or one whose \<open>planet\<close> is absent or empty), has an effective
  temperature that converts to \<open>NaN\<close>: the normalised temperature is \<open>NaN\<close> and the tint
  is black. A body without \<open>avgTemp\<close> around a planet of the table has the table's
  value.
\<close>

theorem missing_temperature_handling:
  "overrideTempChecked (destructure b) = Inr (overrideTemp (destructure b))
   \<and> (\<forall>ap. aroundPlanet b = Some ap \<and> planet ap = Some ''null'' \<longrightarrow>
        effectiveTemp b = JNull
        \<and> normalizedTemp (effectiveTemp b) = Fin 0
        \<and> tintOf b =
            (if js_gt (ToNumber (density b)) (Fin 5)
             then multiplyScalar (temperatureToColor (JNumber (Fin minTemp))) 0.8
             else temperatureToColor (JNumber (Fin minTemp))))
   \<and> (\<forall>ap key. aroundPlanet b = Some ap \<and> planet ap = Some key \<and> key \<noteq> []
        \<and> map_of temperatures_table key = None \<longrightarrow>
        ToNumber (effectiveTemp b) = NaN
        \<and> normalizedTemp (effectiveTemp b) = NaN
        \<and> tintOf b = \<lparr>color_r = 0, color_g = 0, color_b = 0\<rparr>)
   \<and> (avgTemp b = JUndefined
        \<and> (aroundPlanet b = None
            \<or> (\<exists>ap. aroundPlanet b = Some ap \<and> (planet ap = None \<or> planet ap = Some []))) \<longrightarrow>
        effectiveTemp b = JUndefined
        \<and> normalizedTemp (effectiveTemp b) = NaN
        \<and> tintOf b = \<lparr>color_r = 0, color_g = 0, color_b = 0\<rparr>)
   \<and> (\<forall>ap key v. avgTemp b = JUndefined \<and> aroundPlanet b = Some ap \<and> planet ap = Some key
        \<and> map_of temperatures_table key = Some v \<longrightarrow> effectiveTemp b = v)
   \<and> (effectiveTemp b = JNull \<longrightarrow>
        normalizedTemp (effectiveTemp b) = Fin 0
        \<and> tintOf b =
            (if js_gt (ToNumber (density b)) (Fin 5)
             then multiplyScalar (temperatureToColor (JNumber (Fin minTemp))) 0.8
             else temperatureToColor (JNumber (Fin minTemp))))
   \<and> (ToNumber (effectiveTemp b) = NaN \<longrightarrow>
        normalizedTemp (effectiveTemp b) = NaN
        \<and> tintOf b = \<lparr>color_r = 0, color_g = 0, color_b = 0\<rparr>)
   \<and> 0 \<le> color_r (tintOf b) \<and> color_r (tintOf b) \<le> 1
   \<and> 0 \<le> color_g (tintOf b) \<and> color_g (tintOf b) \<le> 1
   \<and> 0 \<le> color_b (tintOf b) \<and> color_b (tintOf b) \<le> 1"
proof -
  have ok: "overrideTempChecked (destructure b) = Inr (overrideTemp (destructure b))"
    by (rule overrideTempChecked_ok)
  have nul: "normalizedTemp (effectiveTemp b) = Fin 0
        \<and> tintOf b =
            (if js_gt (ToNumber (density b)) (Fin 5)
             then multiplyScalar (temperatureToColor (JNumber (Fin minTemp))) 0.8
             else temperatureToColor (JNumber (Fin minTemp)))"
    if "effectiveTemp b = JNull"
    using tint_null [OF that] that by (simp add: normalizedTemp_Fin)
  have nan: "normalizedTemp (effectiveTemp b) = NaN
        \<and> tintOf b = \<lparr>color_r = 0, color_g = 0, color_b = 0\<rparr>"
    if "ToNumber (effectiveTemp b) = NaN"
    using that by (simp add: normalizedTemp_NaN tint_black)
  have c: "effectiveTemp b = JNull" if "aroundPlanet b = Some ap" "planet ap = Some ''null''" for ap
    using effectiveTemp_override [OF that] by (simp add: temperatures_def temperatures_table_def)
  have d: "ToNumber (effectiveTemp b) = NaN"
    if "aroundPlanet b = Some ap" "planet ap = Some key" "key \<noteq> []"
      "map_of temperatures_table key = None" for ap key
    using effectiveTemp_override [OF that(1,2,3)] that(4) by (simp add: temperatures_def)
  have e: "effectiveTemp b = JUndefined"
    if "avgTemp b = JUndefined" "aroundPlanet b = None
            \<or> (\<exists>ap. aroundPlanet b = Some ap \<and> (planet ap = None \<or> planet ap = Some []))"
    using that by (auto simp add: effectiveTemp_cases)
  have e': "ToNumber (effectiveTemp b) = NaN" if "effectiveTemp b = JUndefined"
    using that by simp
  have f: "effectiveTemp b = v"
    if "aroundPlanet b = Some ap" "planet ap = Some key" "map_of temperatures_table key = Some v"
    for ap key v
    using effectiveTemp_override [OF that(1,2) table_key_nonempty [OF that(3)]] that(3)
    by (simp add: temperatures_def)
  have 1: "\<forall>ap. aroundPlanet b = Some ap \<and> planet ap = Some ''null'' \<longrightarrow>
        effectiveTemp b = JNull
        \<and> normalizedTemp (effectiveTemp b) = Fin 0
        \<and> tintOf b =
            (if js_gt (ToNumber (density b)) (Fin 5)
             then multiplyScalar (temperatureToColor (JNumber (Fin minTemp))) 0.8
             else temperatureToColor (JNumber (Fin minTemp)))"
    using c nul by blast
  have 2: "\<forall>ap key. aroundPlanet b = Some ap \<and> planet ap = Some key \<and> key \<noteq> []
        \<and> map_of temperatures_table key = None \<longrightarrow>
        ToNumber (effectiveTemp b) = NaN
        \<and> normalizedTemp (effectiveTemp b) = NaN
        \<and> tintOf b = \<lparr>color_r = 0, color_g = 0, color_b = 0\<rparr>"
    using d nan by blast
  have 3: "avgTemp b = JUndefined
        \<and> (aroundPlanet b = None
            \<or> (\<exists>ap. aroundPlanet b = Some ap \<and> (planet ap = None \<or> planet ap = Some []))) \<longrightarrow>
        effectiveTemp b = JUndefined
        \<and> normalizedTemp (effectiveTemp b) = NaN
        \<and> tintOf b = \<lparr>color_r = 0, color_g = 0, color_b = 0\<rparr>"
    using e e' nan by blast
  have 4: "\<forall>ap key v. avgTemp b = JUndefined \<and> aroundPlanet b = Some ap \<and> planet ap = Some key
        \<and> map_of temperatures_table key = Some v \<longrightarrow> effectiveTemp b = v"
    using f by blast
  have 5: "effectiveTemp b = JNull \<longrightarrow>
        normalizedTemp (effectiveTemp b) = Fin 0
        \<and> tintOf b =
            (if js_gt (ToNumber (density b)) (Fin 5)
             then multiplyScalar (temperatureToColor (JNumber (Fin minTemp))) 0.8
             else temperatureToColor (JNumber (Fin minTemp)))"
    using nul by blast
  have 6: "ToNumber (effectiveTemp b) = NaN \<longrightarrow>
        normalizedTemp (effectiveTemp b) = NaN
        \<and> tintOf b = \<lparr>color_r = 0, color_g = 0, color_b = 0\<rparr>"
    using nan by blast
  from ok 1 2 3 4 5 6 tintOf_range [of b] show ?thesis by (intro conjI) blast+
qed

theorem missing_temperature_handling_witness:
  "effectiveTemp moonOfNull = JNull
   \<and> normalizedTemp (effectiveTemp moonOfNull) = Fin 0
   \<and> tintOf moonOfNull = temperatureToColor (JNumber (Fin minTemp))
   \<and> ToNumber (effectiveTemp moonOfVenus) = NaN
   \<and> tintOf moonOfVenus = \<lparr>color_r = 0, color_g = 0, color_b = 0\<rparr>
   \<and> effectiveTemp noTempBody = JUndefined
   \<and> tintOf noTempBody = \<lparr>color_r = 0, color_g = 0, color_b = 0\<rparr>
   \<and> effectiveTemp ringlessBody = JUndefined
   \<and> tintOf ringlessBody = \<lparr>color_r = 0, color_g = 0, color_b = 0\<rparr>
   \<and> effectiveTemp (hotRockyMoon\<lparr>avgTemp := JUndefined\<rparr>) = JNumber (Fin 210)"
proof -
  have n: "aroundPlanet moonOfNull = Some \<lparr>planet = Some ''null''\<rparr>
    \<and> planet \<lparr>planet = Some ''null''\<rparr> = Some ''null''"
    by (simp add: moonOfNull_def)
  have nd: "\<not> js_gt (ToNumber (density moonOfNull)) (Fin 5)"
    by (simp add: moonOfNull_def)
  have v: "aroundPlanet moonOfVenus = Some \<lparr>planet = Some ''venus''\<rparr>
    \<and> planet \<lparr>planet = Some ''venus''\<rparr> = Some ''venus'' \<and> ''venus'' \<noteq> []
    \<and> map_of temperatures_table ''venus'' = None"
    by (simp add: moonOfVenus_def temperatures_table_def)
  have u: "avgTemp noTempBody = JUndefined \<and> aroundPlanet noTempBody = None"
    by (simp add: noTempBody_def)
  have r: "avgTemp ringlessBody = JUndefined
    \<and> aroundPlanet ringlessBody = Some \<lparr>planet = None\<rparr> \<and> planet \<lparr>planet = None\<rparr> = None"
    by (simp add: ringlessBody_def)
  have m: "avgTemp (hotRockyMoon\<lparr>avgTemp := JUndefined\<rparr>) = JUndefined
    \<and> aroundPlanet (hotRockyMoon\<lparr>avgTemp := JUndefined\<rparr>) = Some \<lparr>planet = Some ''mars''\<rparr>
    \<and> planet \<lparr>planet = Some ''mars''\<rparr> = Some ''mars''
    \<and> map_of temperatures_table ''mars'' = Some (JNumber (Fin 210))"
    by (simp add: hotRockyMoon_def temperatures_table_def)
  note h = missing_temperature_handling [of moonOfNull, THEN conjunct2, THEN conjunct1,
      rule_format, OF n]
  have h1: "effectiveTemp moonOfNull = JNull" using h by (rule conjunct1)
  have h2: "normalizedTemp (effectiveTemp moonOfNull) = Fin 0" using h by blast
  have h3: "tintOf moonOfNull = temperatureToColor (JNumber (Fin minTemp))"
    using h [THEN conjunct2, THEN conjunct2] nd by (simp only: if_False)
  have 1: "effectiveTemp moonOfNull = JNull
   \<and> normalizedTemp (effectiveTemp moonOfNull) = Fin 0
   \<and> tintOf moonOfNull = temperatureToColor (JNumber (Fin minTemp))"
    using h1 h2 h3 by blast
  have 2: "ToNumber (effectiveTemp moonOfVenus) = NaN
   \<and> tintOf moonOfVenus = \<lparr>color_r = 0, color_g = 0, color_b = 0\<rparr>"
    using missing_temperature_handling [of moonOfVenus] v by blast
  have 3: "effectiveTemp noTempBody = JUndefined
   \<and> tintOf noTempBody = \<lparr>color_r = 0, color_g = 0, color_b = 0\<rparr>"
    using missing_temperature_handling [of noTempBody] u by blast
  have 4: "effectiveTemp ringlessBody = JUndefined
   \<and> tintOf ringlessBody = \<lparr>color_r = 0, color_g = 0, color_b = 0\<rparr>"
    using missing_temperature_handling [of ringlessBody] r by blast
  have 5: "effectiveTemp (hotRockyMoon\<lparr>avgTemp := JUndefined\<rparr>) = JNumber (Fin 210)"
    using missing_temperature_handling [of "hotRockyMoon\<lparr>avgTemp := JUndefined\<rparr>"] m by blast
  from 1 2 3 4 5 show ?thesis by blast
qed

section \<open>The polar ice overlay\<close>

lemma pixel_byte:
  assumes "x < textureSize" "c < 4"
  shows "(pixelIndex y x + c) mod 4 = c"
    and "(pixelIndex y x + c) div 4 div textureSize = y"
    and "(pixelIndex y x + c) div 4 mod textureSize = x"
proof -
  define k where "k = y * textureSize + x"
  have p: "pixelIndex y x = 4 * k" by (simp add: pixelIndex_def k_def)
  have d: "(pixelIndex y x + c) div 4 = k"
    unfolding p using assms(2) by simp
  show "(pixelIndex y x + c) mod 4 = c" unfolding p using assms(2) by simp
  show "(pixelIndex y x + c) div 4 div textureSize = y"
    unfolding d using assms(1) by (simp add: k_def)
  show "(pixelIndex y x + c) div 4 mod textureSize = x"
    unfolding d using assms(1) by (simp add: k_def)
qed

lemma iceCap_white:
  assumes "length data = 4 * textureSize * textureSize" "x < textureSize" "y < textureSize"
    and "c < 3" and "inPolarBand y x" and "js_gt (ToNumber tilt) (Fin 20)"
  shows "iceCap tilt y x data ! (pixelIndex y x + c) = 255"
proof -
  have rng: "pixelIndex y x + 3 < length data"
    using pixel_in_range [OF assms(2,3)] assms(1) by simp
  from assms(4) consider "c = 0" | "c = 1" | "c = 2" by linarith
  then show ?thesis
    using rng assms(5,6) by cases (simp_all add: iceCap_def Let_def)
qed

lemma iceCap_untilted: "\<not> js_gt (ToNumber tilt) (Fin 20) \<Longrightarrow> iceCap tilt y x data = data"
  by (simp add: iceCap_def)

lemma loopY_pixel:
  assumes "length data = 4 * textureSize * textureSize" "x < textureSize" "y < textureSize"
    and "c < 3"
  shows "loopY tilt baseColor 0 data ! (pixelIndex y x + c) =
    tinted (channel baseColor c) (iced tilt y x (data ! (pixelIndex y x + c)))"
proof -
  have c4: "c < 4" using assms(4) by simp
  have rng: "pixelIndex y x + c < length data"
    using pixel_in_range [OF assms(2,3)] assms(1,4) by simp
  show ?thesis
    using loopY_nth [OF assms(1) rng, of tilt baseColor 0] assms(4)
    by (simp add: composited_def pixel_byte [OF assms(2) c4])
qed

text \<open>
  C7: take image data of the canvas size, a pixel \<open>(x, y)\<close> of the canvas and one of its
  three colour bytes. When \<open>|ny| > 0.4\<close> and \<open>|nx| < 0.5\<close> and the axial tilt is above 20,
  the ice-cap step stores 255 in the byte, and the byte the loop leaves is the tint applied
  to 255, not to the byte of the base image. When the axial tilt is not above 20 (at most
  20, or absent) the ice-cap step changes no pixel at all, and the loop leaves the tint
  applied to the byte of the base image; so it does for a pixel outside the band.
\<close>

theorem polar_ice_overlay:
  assumes "length data = 4 * textureSize * textureSize"
    and "x < textureSize" and "y < textureSize" and "c < 3"
  shows "(\<bar>real y / real textureSize - 0.5\<bar> > 0.4 \<and> \<bar>real x / real textureSize - 0.5\<bar> < 0.5
          \<and> js_gt (ToNumber tilt) (Fin 20) \<longrightarrow>
            iceCap tilt y x data ! (pixelIndex y x + c) = 255
            \<and> loopY tilt baseColor 0 data ! (pixelIndex y x + c) = tinted (channel baseColor c) 255)
    \<and> (\<not> js_gt (ToNumber tilt) (Fin 20) \<longrightarrow>
            iceCap tilt y' x' data = data
            \<and> loopY tilt baseColor 0 data ! (pixelIndex y x + c)
                = tinted (channel baseColor c) (data ! (pixelIndex y x + c)))
    \<and> (\<not> (\<bar>real y / real textureSize - 0.5\<bar> > 0.4 \<and> \<bar>real x / real textureSize - 0.5\<bar> < 0.5) \<longrightarrow>
            iceCap tilt y x data = data
            \<and> loopY tilt baseColor 0 data ! (pixelIndex y x + c)
                = tinted (channel baseColor c) (data ! (pixelIndex y x + c)))"
proof -
  have band: "inPolarBand y x =
    (\<bar>real y / real textureSize - 0.5\<bar> > 0.4 \<and> \<bar>real x / real textureSize - 0.5\<bar> < 0.5)"
    by (simp add: inPolarBand_def polarEffect_def Let_def)
  have out: "iceCap tilt y x data = data" if "\<not> inPolarBand y x"
    using that by (simp add: iceCap_def)
  show ?thesis
    using iceCap_white [OF assms, of tilt] iceCap_untilted [of tilt y' x' data] out
      loopY_pixel [OF assms, of tilt baseColor]
    unfolding band by (auto simp add: iced_def band)
qed

theorem polar_ice_overlay_witness:
  "iceCap (JNumber (Fin 25)) 0 1 greyData ! (pixelIndex 0 1 + 2) = 255
   \<and> loopY (JNumber (Fin 25)) (tintOf hotGasGiant) 0 greyData ! (pixelIndex 0 1 + 2)
       = tinted (channel (tintOf hotGasGiant) 2) 255
   \<and> iceCap (JNumber (Fin 25)) 512 1 greyData = greyData
   \<and> iceCap (JNumber (Fin 10)) 0 1 greyData = greyData
   \<and> loopY (JNumber (Fin 10)) (tintOf hotGasGiant) 0 greyData ! (pixelIndex 0 1 + 2)
       = tinted (channel (tintOf hotGasGiant) 2) (greyData ! (pixelIndex 0 1 + 2))"
proof -
  have len: "length greyData = 4 * textureSize * textureSize" by (simp add: greyData_def)
  have x: "1 < textureSize" and y: "0 < textureSize" by (simp_all add: textureSize_def)
  have c: "(2::nat) < 3" by simp
  have band: "\<bar>real 0 / real textureSize - 0.5\<bar> > 0.4 \<and> \<bar>real 1 / real textureSize - 0.5\<bar> < 0.5"
    by (simp add: textureSize_def)
  have t25: "js_gt (ToNumber (JNumber (Fin 25))) (Fin 20)" by simp
  have t10: "\<not> js_gt (ToNumber (JNumber (Fin 10))) (Fin 20)" by simp
  have y': "512 < textureSize" by (simp add: textureSize_def)
  have mid: "\<not> (\<bar>real 512 / real textureSize - 0.5\<bar> > 0.4
      \<and> \<bar>real 1 / real textureSize - 0.5\<bar> < 0.5)"
    by (simp add: textureSize_def)
  have m: "iceCap (JNumber (Fin 25)) 512 1 greyData = greyData"
    using polar_ice_overlay [OF len x y' c, of "JNumber (Fin 25)" "tintOf hotGasGiant" 0 1] mid
    by blast
  show ?thesis
    using polar_ice_overlay [OF len x y c, of "JNumber (Fin 25)" "tintOf hotGasGiant" 0 1]
      polar_ice_overlay [OF len x y c, of "JNumber (Fin 10)" "tintOf hotGasGiant" 0 1]
      band t25 t10 m
    by blast
qed

end
